theory Spec2Isabelle
  imports Main "HOL-Library.Word"
begin

section \<open>Machine types of lexer.h\<close>

text \<open>
  \<^verbatim>\<open>int\<close> is a 32-bit two's complement integer (read with \<open>sint\<close>), \<^verbatim>\<open>size_t\<close>
  (\<^verbatim>\<open>yy_size_t\<close>) a 64-bit unsigned one (read with \<open>uint\<close>). Mixed arithmetic such as
  \<^verbatim>\<open>yycolumn + yyleng\<close> is carried out in \<^verbatim>\<open>size_t\<close>: the \<^verbatim>\<open>int\<close> operand is
  sign-extended, and storing the result in an \<^verbatim>\<open>int\<close> keeps its low 32 bits.
\<close>

type_synonym c_int = "32 word"
type_synonym c_size_t = "64 word"

definition int_to_size_t :: "c_int \<Rightarrow> c_size_t" where
  "int_to_size_t i = scast i"

definition size_t_to_int :: "c_size_t \<Rightarrow> c_int" where
  "size_t_to_int n = ucast n"

section \<open>Tokens, locations and host objects\<close>

text \<open>
  Modelled from the spec: the token kinds, which are declared in grammar.h and not in
  lexer.h. Section 3 has a closed set of kinds with an end-of-file and an error kind; the
  header names the error kind \<^verbatim>\<open>LEX_ERROR\<close>. \<open>YYEOF\<close> is the end-of-input token and
  \<open>TOKEN k\<close> stands for any other kind.
\<close>

datatype token = LEX_ERROR | YYEOF | TOKEN nat

text \<open>
  Modelled from the spec: \<^verbatim>\<open>YYLTYPE\<close>, the location record that \<^verbatim>\<open>yylloc\<close> points to,
  which is declared in grammar.h and not in lexer.h. Section 3 gives a location the four
  fields that \<^verbatim>\<open>YY_USER_ACTION\<close> assigns; each is an \<^verbatim>\<open>int\<close>.
\<close>

record yyltype =
  first_line :: c_int
  first_column :: c_int
  last_line :: c_int
  last_column :: c_int

text \<open>
  A \<^verbatim>\<open>PyObject*\<close> as the bridge tests it: the null pointer, the \<^verbatim>\<open>Py_None\<close>
  singleton, or any other object (an opaque handle).
\<close>

datatype pyobject = NULL | Py_None | PyObj nat

text \<open>
  A lexer error as the error reporter receives it: either the string and length handed to
  \<^verbatim>\<open>build_lexer_error\<close>, or the failure description drained from the host's ambient
  exception state (whatever was there, possibly nothing).
\<close>

datatype message = Text string nat | Failure "string option"

record lexer_error =
  message :: message
  location :: yyltype

text \<open>\<^verbatim>\<open>struct yy_buffer_state\<close>. Pointers into the input buffer are indices.\<close>

record yy_buffer_state =
  yy_input_file :: nat
  yy_ch_buf :: string
  yy_buf_pos :: nat
  yy_buf_size :: nat
  yy_n_chars :: nat
  yy_is_our_buffer :: c_int
  yy_is_interactive :: c_int
  yy_at_bol :: c_int
  yy_bs_lineno :: c_int
  yy_bs_column :: c_int
  yy_fill_buffer :: c_int
  yy_buffer_status :: c_int

text \<open>
  The scan state: the globals the header declares (\<^verbatim>\<open>yylineno\<close>, \<^verbatim>\<open>yycolumn\<close>,
  \<^verbatim>\<open>yy_line_tokens\<close>, \<^verbatim>\<open>yy_eof_times\<close>), what \<^verbatim>\<open>yylloc\<close> and \<^verbatim>\<open>yylval\<close> point to,
  the host's ambient exception state with the reference count of \<^verbatim>\<open>Py_None\<close>, the error
  collection kept by the builder, and the buffer stack with the active read cursor
  (the active buffer is the head of the stack).
\<close>

record lexer =
  yylineno :: c_int
  yycolumn :: c_int
  yy_line_tokens :: c_int
  yy_eof_times :: c_int
  yylloc :: yyltype
  yylval_pyobj :: pyobject
  py_exception :: "string option"
  py_none_refcnt :: int
  errors :: "lexer_error list"
  read_cursor :: nat
  yy_buffer_stack :: "yy_buffer_state list"

section \<open>Location tracker\<close>

text \<open>
  \<^verbatim>\<open>YY_USER_ACTION\<close>, run on every match before the rule's action:
  \<^verbatim>\<open>
    yy_line_tokens++;
    yylloc->first_line = yylloc->last_line = yylineno;
    yylloc->first_column = yycolumn;
    yylloc->last_column = yycolumn+yyleng-1;
    yycolumn += yyleng;
  \<close>
\<close>

definition YY_USER_ACTION :: "c_size_t \<Rightarrow> lexer \<Rightarrow> lexer" where
  "YY_USER_ACTION yyleng s =
     (let s1 = s\<lparr>yy_line_tokens := yy_line_tokens s + 1\<rparr>;
          s2 = s1\<lparr>yylloc := (yylloc s1)\<lparr>last_line := yylineno s1\<rparr>\<rparr>;
          s3 = s2\<lparr>yylloc := (yylloc s2)\<lparr>first_line := last_line (yylloc s2)\<rparr>\<rparr>;
          s4 = s3\<lparr>yylloc := (yylloc s3)\<lparr>first_column := yycolumn s3\<rparr>\<rparr>;
          s5 = s4\<lparr>yylloc := (yylloc s4)
                 \<lparr>last_column := size_t_to_int (int_to_size_t (yycolumn s4) + yyleng - 1)\<rparr>\<rparr>
      in s5\<lparr>yycolumn := size_t_to_int (int_to_size_t (yycolumn s5) + yyleng)\<rparr>)"

text \<open>
  Modelled from the spec: the action of the newline rule, which is in the scanner
  description and not in lexer.h. Section 4.2: a newline match resets the current column
  to 1, increments the current line and resets the tokens-since-beginning-of-line counter
  to 0.
\<close>

definition newline_action :: "lexer \<Rightarrow> lexer" where
  "newline_action s = s\<lparr>yy_line_tokens := 0, yycolumn := 1, yylineno := yylineno s + 1\<rparr>"

text \<open>
  Modelled from the spec: one match as the scanner runs it (the scanner's code is not in
  lexer.h). \<^verbatim>\<open>YY_USER_ACTION\<close> comes first, then the rule's action; section 4.2 gives
  only the newline rule an effect on the counters of the location tracker.
\<close>

definition match_step :: "bool \<Rightarrow> c_size_t \<Rightarrow> lexer \<Rightarrow> lexer" where
  "match_step is_newline yyleng s =
     (let s1 = YY_USER_ACTION yyleng s in if is_newline then newline_action s1 else s1)"

text \<open>An example scan state: line 1, column 1, nothing matched yet, no buffer.\<close>

definition example_lexer :: lexer where
  "example_lexer =
     \<lparr>yylineno = 1, yycolumn = 1, yy_line_tokens = 0, yy_eof_times = 0,
      yylloc = \<lparr>first_line = 0, first_column = 0, last_line = 0, last_column = 0\<rparr>,
      yylval_pyobj = NULL, py_exception = None, py_none_refcnt = 1, errors = [],
      read_cursor = 0, yy_buffer_stack = []\<rparr>"

section \<open>Numeric parser\<close>

text \<open>
  A \<^verbatim>\<open>char\<close> promoted to \<^verbatim>\<open>int\<close>: the byte, sign-extended.
\<close>

definition char_to_int :: "char \<Rightarrow> c_int" where
  "char_to_int ch = scast (of_char ch :: 8 word)"

text \<open>
  Modelled from the spec: the body of \<^verbatim>\<open>strtonl\<close>, which lexer.h only declares as
  \<^verbatim>\<open>int strtonl(const char* buf, size_t nchars)\<close>. Section 4.6: it interprets
  \<open>nchars\<close> consecutive decimal digit characters as an integer by repeated
  multiply-by-10-and-add. The accumulator has the declared result type \<^verbatim>\<open>int\<close>. The text
  \<open>buf\<close> is the characters available at the pointer; reading past them has no result.
\<close>

fun strtonl_loop :: "c_int \<Rightarrow> string \<Rightarrow> nat \<Rightarrow> c_int option" where
  "strtonl_loop result buf 0 = Some result"
| "strtonl_loop result [] (Suc n) = None"
| "strtonl_loop result (ch # buf) (Suc n) =
     strtonl_loop (result * 10 + (char_to_int ch - char_to_int CHR ''0'')) buf n"

definition strtonl :: "string \<Rightarrow> nat \<Rightarrow> c_int option" where
  "strtonl buf nchars = strtonl_loop 0 buf nchars"

text \<open>
  The reference reading of a digit string: a decimal digit character, and the number a
  string of digits denotes in positional notation.
\<close>

definition is_digit :: "char \<Rightarrow> bool" where
  "is_digit ch \<longleftrightarrow> (of_char CHR ''0'' :: nat) \<le> of_char ch \<and> (of_char ch :: nat) \<le> of_char CHR ''9''"

definition digit_value :: "char \<Rightarrow> nat" where
  "digit_value ch = of_char ch - of_char CHR ''0''"

fun decimal_value :: "string \<Rightarrow> nat" where
  "decimal_value [] = 0"
| "decimal_value (ch # cs) = digit_value ch * 10 ^ length cs + decimal_value cs"

section \<open>String accumulator\<close>

text \<open>
  The string buffer statics. Pointers are addresses; \<open>strbuf_block\<close> is the content of the
  block allocated at \<open>strbuf\<close>, which has \<open>strbuf_size + 1\<close> bytes (the last one for the
  final nul, where \<open>strbuf_end\<close> points).
\<close>

record strbuf_state =
  strbuf_size :: nat
  strbuf :: nat
  strbuf_end :: nat
  strbuf_ptr :: nat
  strbuf_block :: "char list"

text \<open>
  Modelled from the spec: the body of \<^verbatim>\<open>strbuf_realloc\<close>, which lexer.h only declares.
  Section 4.3: reallocate to at least double the current size, or to enough to fit the
  pending write, whichever is larger, preserving the existing content and updating all
  cursors. The new size is the least one that section allows. \<open>p\<close> is the address at
  which the allocator places the new block; the bytes added to the block are
  indeterminate in C and nul here.
\<close>

definition strbuf_realloc :: "nat \<Rightarrow> nat \<Rightarrow> strbuf_state \<Rightarrow> strbuf_state" where
  "strbuf_realloc p num_new_chars s =
     (let cur_size = strbuf_ptr s - strbuf s;
          new_size = max (2 * strbuf_size s) (cur_size + num_new_chars);
          grown = strbuf_block s @ replicate (new_size + 1 - length (strbuf_block s)) (CHR 0x00)
      in s\<lparr>strbuf_size := new_size,
           strbuf := p,
           strbuf_ptr := p + cur_size,
           strbuf_end := p + new_size,
           strbuf_block := take (new_size + 1) grown\<rparr>)"

text \<open>
  \<^verbatim>\<open>*strbuf_ptr++ = value\<close>: the store has a result only when the insertion point lies
  inside the block.
\<close>

definition store_and_advance :: "char \<Rightarrow> strbuf_state \<Rightarrow> strbuf_state option" where
  "store_and_advance v s =
     (if strbuf s \<le> strbuf_ptr s \<and> strbuf_ptr s - strbuf s < length (strbuf_block s)
      then Some (s\<lparr>strbuf_block := (strbuf_block s)[strbuf_ptr s - strbuf s := v],
                   strbuf_ptr := strbuf_ptr s + 1\<rparr>)
      else None)"

text \<open>
  \<^verbatim>\<open>SAFE_COPY_CHAR(value)\<close>:
  \<^verbatim>\<open>
    if (strbuf_ptr >= strbuf_end) { strbuf_realloc(1); }
    *strbuf_ptr++ = value;
  \<close>
  \<open>realloc_if_full\<close> is its first statement.
\<close>

definition realloc_if_full :: "nat \<Rightarrow> strbuf_state \<Rightarrow> strbuf_state" where
  "realloc_if_full p s = (if strbuf_ptr s \<ge> strbuf_end s then strbuf_realloc p 1 s else s)"

definition SAFE_COPY_CHAR :: "nat \<Rightarrow> char \<Rightarrow> strbuf_state \<Rightarrow> strbuf_state option" where
  "SAFE_COPY_CHAR p v s = store_and_advance v (realloc_if_full p s)"

text \<open>
  The accumulator's invariant, from the comments on the statics: the block has
  \<open>strbuf_size\<close> bytes and the final nul, the sentinel points to that nul, and the insertion
  point lies between the head and the sentinel.
\<close>

definition strbuf_inv :: "strbuf_state \<Rightarrow> bool" where
  "strbuf_inv s \<longleftrightarrow>
     length (strbuf_block s) = strbuf_size s + 1 \<and>
     strbuf_end s = strbuf s + strbuf_size s \<and>
     strbuf s \<le> strbuf_ptr s \<and> strbuf_ptr s \<le> strbuf_end s"

section \<open>Error reporter\<close>

text \<open>
  Modelled from the spec: the body of \<^verbatim>\<open>build_lexer_error\<close>, which lexer.h only declares,
  with the comment \<^verbatim>\<open>Build and accumulate an error on the builder object\<close>.
  Section 4.5: \<open>report(message, location)\<close> appends the message with the location to the
  error collection. The location is the current one, shared through \<^verbatim>\<open>yylloc\<close>.
\<close>

definition build_lexer_error :: "string \<Rightarrow> nat \<Rightarrow> lexer \<Rightarrow> lexer" where
  "build_lexer_error string len s =
     s\<lparr>errors := errors s @ [\<lparr>message = Text string len, location = yylloc s\<rparr>]\<rparr>"

text \<open>
  Modelled from the spec: the body of \<^verbatim>\<open>build_lexer_error_from_exception\<close>, which
  lexer.h only declares, with the comment \<^verbatim>\<open>Build and accumulate an error on the builder
  object using the current exception state\<close>. Section 4.5: it reads whatever failure
  description the host left behind, appends it with the location, and clears the ambient
  state.
\<close>

definition build_lexer_error_from_exception :: "lexer \<Rightarrow> lexer" where
  "build_lexer_error_from_exception s =
     s\<lparr>errors := errors s @ [\<lparr>message = Failure (py_exception s), location = yylloc s\<rparr>],
       py_exception := None\<rparr>"

section \<open>Lexer-builder bridge\<close>

text \<open>
  The builder is an opaque collaborator: \<^verbatim>\<open>PyObject_CallMethod(builder, method_name,
  format, ...)\<close> may change the host state in any way and returns an object pointer.
\<close>

type_synonym builder = "string \<Rightarrow> string \<Rightarrow> string list \<Rightarrow> lexer \<Rightarrow> pyobject \<times> lexer"

text \<open>A C string literal denotes its characters followed by the terminating nul.\<close>

definition c_string_literal :: "string \<Rightarrow> string" where
  "c_string_literal text = text @ [CHR 0x00]"

definition Py_DECREF_None :: "lexer \<Rightarrow> lexer" where
  "Py_DECREF_None s = s\<lparr>py_none_refcnt := py_none_refcnt s - 1\<rparr>"

text \<open>
  \<^verbatim>\<open>BUILD_LEX(method_name, format, ...)\<close>. The result \<open>Some t\<close> is the statement
  \<^verbatim>\<open>return t;\<close> of the enclosing scan call; \<open>None\<close> is falling through to the rest of the
  rule's action.
  \<^verbatim>\<open>
    yylval->pyobj = PyObject_CallMethod(builder, method_name, format, __VA_ARGS__);
    if (yylval->pyobj == NULL) {
       build_lexer_error_from_exception();
       return LEX_ERROR;
    }
    else if (yylval->pyobj == Py_None) {
        Py_DECREF(Py_None);
        build_lexer_error("Unexpected None result from lexer", 34);
        return LEX_ERROR;
    }
  \<close>
\<close>

definition BUILD_LEX ::
  "builder \<Rightarrow> string \<Rightarrow> string \<Rightarrow> string list \<Rightarrow> lexer \<Rightarrow> token option \<times> lexer" where
  "BUILD_LEX builder method_name format args s =
     (case builder method_name format args s of
        (r, s0) \<Rightarrow>
          (let s1 = s0\<lparr>yylval_pyobj := r\<rparr>
           in case yylval_pyobj s1 of
                NULL \<Rightarrow> (Some LEX_ERROR, build_lexer_error_from_exception s1)
              | Py_None \<Rightarrow>
                  (Some LEX_ERROR,
                   build_lexer_error (c_string_literal ''Unexpected None result from lexer'') 34
                     (Py_DECREF_None s1))
              | PyObj v \<Rightarrow> (None, s1)))"

text \<open>
  Statement sequencing inside a rule's action: the rest runs only when the first statement
  did not return from the scan call.
\<close>

definition then_do ::
  "(lexer \<Rightarrow> token option \<times> lexer) \<Rightarrow> (lexer \<Rightarrow> token option \<times> lexer) \<Rightarrow>
   lexer \<Rightarrow> token option \<times> lexer" where
  "then_do first rest s =
     (case first s of (Some t, s') \<Rightarrow> (Some t, s') | (None, s') \<Rightarrow> rest s')"

text \<open>
  An example builder: the operation \<open>DATE\<close> raises (it leaves an exception and returns the
  null pointer), the operation \<open>COMMENT\<close> returns \<^verbatim>\<open>None\<close>, every other operation
  returns an object.
\<close>

definition example_builder :: builder where
  "example_builder method_name format args s =
     (if method_name = ''DATE'' then (NULL, s\<lparr>py_exception := Some ''ValueError''\<rparr>)
      else if method_name = ''COMMENT'' then (Py_None, s\<lparr>py_none_refcnt := py_none_refcnt s + 1\<rparr>)
      else (PyObj 7, s))"

section \<open>Buffer stack\<close>

text \<open>
  Modelled from the spec: the bodies of \<^verbatim>\<open>yypush_buffer_state\<close> and
  \<^verbatim>\<open>yypop_buffer_state\<close>, which lexer.h only declares. Section 4.1:
  \<open>push\<close> suspends the current frame, saving cursor, line and column, and makes the new
  source active; \<open>pop\<close> discards the active frame and reactivates the previously
  suspended one, restoring its saved cursor, line and column; \<open>at_end_of_input\<close> holds
  when the stack is empty after a pop. A frame keeps the three values in the fields
  \<^verbatim>\<open>yy_buf_pos\<close>, \<^verbatim>\<open>yy_bs_lineno\<close> and \<^verbatim>\<open>yy_bs_column\<close> of its buffer state.
  Opening a source is outside the model: \<open>push\<close> receives the opened buffer.
\<close>

definition save_frame :: "lexer \<Rightarrow> yy_buffer_state \<Rightarrow> yy_buffer_state" where
  "save_frame s b =
     b\<lparr>yy_buf_pos := read_cursor s, yy_bs_lineno := yylineno s, yy_bs_column := yycolumn s\<rparr>"

definition restore_frame :: "yy_buffer_state \<Rightarrow> lexer \<Rightarrow> lexer" where
  "restore_frame b s =
     s\<lparr>read_cursor := yy_buf_pos b, yylineno := yy_bs_lineno b, yycolumn := yy_bs_column b\<rparr>"

definition yypush_buffer_state :: "yy_buffer_state \<Rightarrow> lexer \<Rightarrow> lexer" where
  "yypush_buffer_state new_buffer s =
     restore_frame new_buffer
       (s\<lparr>yy_buffer_stack :=
            new_buffer # (case yy_buffer_stack s of [] \<Rightarrow> [] | b # bs \<Rightarrow> save_frame s b # bs)\<rparr>)"

definition yypop_buffer_state :: "lexer \<Rightarrow> lexer" where
  "yypop_buffer_state s =
     (case yy_buffer_stack s of
        [] \<Rightarrow> s
      | b # bs \<Rightarrow>
          (case bs of
             [] \<Rightarrow> s\<lparr>yy_buffer_stack := bs\<rparr>
           | parent # _ \<Rightarrow> restore_frame parent (s\<lparr>yy_buffer_stack := bs\<rparr>)))"

definition at_end_of_input :: "lexer \<Rightarrow> bool" where
  "at_end_of_input s \<longleftrightarrow> yy_buffer_stack s = []"

text \<open>
  Modelled from the spec: scanning inside the active buffer, which the scanner's code does
  and lexer.h does not show. Each match advances the read cursor by its length and runs
  \<open>match_step\<close>. A match is given by whether it is a newline and by its length.
\<close>

definition consume :: "bool \<times> c_size_t \<Rightarrow> lexer \<Rightarrow> lexer" where
  "consume m s =
     match_step (fst m) (snd m) (s\<lparr>read_cursor := read_cursor s + unat (snd m)\<rparr>)"

fun scan :: "(bool \<times> c_size_t) list \<Rightarrow> lexer \<Rightarrow> lexer" where
  "scan [] s = s"
| "scan (m # ms) s = scan ms (consume m s)"

text \<open>An example buffer over a text, not yet read, at line 1 and column 1.\<close>

definition example_buffer :: "string \<Rightarrow> yy_buffer_state" where
  "example_buffer text =
     \<lparr>yy_input_file = 0, yy_ch_buf = text, yy_buf_pos = 0, yy_buf_size = 16384,
      yy_n_chars = length text, yy_is_our_buffer = 1, yy_is_interactive = 0, yy_at_bol = 1,
      yy_bs_lineno = 1, yy_bs_column = 1, yy_fill_buffer = 0, yy_buffer_status = 0\<rparr>"

section \<open>The scan call at the end of a buffer\<close>

text \<open>\<^verbatim>\<open>#define yywrap() 1\<close>: there is never another input to continue with.\<close>

definition yywrap :: c_int where
  "yywrap = 1"

text \<open>
  The rules of the scanner description are a parameter: for the input at the read cursor
  they give the length of the match and the action to run, which returns a token or falls
  through to the next match.
\<close>

type_synonym rules = "lexer \<Rightarrow> c_size_t \<times> (lexer \<Rightarrow> token option \<times> lexer)"

text \<open>
  Modelled from the spec: the scan call \<open>next_token\<close> (\<^verbatim>\<open>yylex\<close>, which lexer.h only
  declares). Sections 4.1 and 6: while the active buffer has input, a match is stamped
  by \<^verbatim>\<open>YY_USER_ACTION\<close> and its action runs; when the active buffer is exhausted the
  frame is popped; the end-of-file counter is incremented when frames remain and scanning
  resumes in the parent; the end-of-input token is returned when the stack is exhausted at
  the root. A scan call that never returns has the value \<open>None\<close>.
\<close>

partial_function (option) next_token :: "rules \<Rightarrow> lexer \<Rightarrow> (token \<times> lexer) option" where
  "next_token rules s =
     (case yy_buffer_stack s of
        [] \<Rightarrow> Some (YYEOF, s)
      | b # bs \<Rightarrow>
          if read_cursor s < yy_n_chars b then
            (case rules s of
               (yyleng, action) \<Rightarrow>
                 (case action (YY_USER_ACTION yyleng
                                (s\<lparr>read_cursor := read_cursor s + unat yyleng\<rparr>)) of
                    (Some t, s') \<Rightarrow> Some (t, s')
                  | (None, s') \<Rightarrow> next_token rules s'))
          else if yywrap = 0 then next_token rules s
          else
            (let s1 = yypop_buffer_state s
             in if at_end_of_input s1 then Some (YYEOF, s1)
                else next_token rules (s1\<lparr>yy_eof_times := yy_eof_times s1 + 1\<rparr>)))"

text \<open>\<open>n\<close> scan calls in a row, with the tokens they return.\<close>

fun next_tokens :: "rules \<Rightarrow> nat \<Rightarrow> lexer \<Rightarrow> (token list \<times> lexer) option" where
  "next_tokens rules 0 s = Some ([], s)"
| "next_tokens rules (Suc n) s =
     (case next_token rules s of
        None \<Rightarrow> None
      | Some (t, s') \<Rightarrow>
          (case next_tokens rules n s' of
             None \<Rightarrow> None
           | Some (ts, s'') \<Rightarrow> Some (t # ts, s'')))"

section \<open>Conversions between \<^verbatim>\<open>int\<close> and \<^verbatim>\<open>size_t\<close>\<close>

lemma take_bit_32_of_64_add:
  "take_bit 32 (take_bit 64 x + take_bit 64 y) = take_bit 32 (x + (y::int))"
proof -
  have "take_bit 32 (take_bit 64 x + take_bit 64 y)
        = take_bit 32 (take_bit 32 (take_bit 64 x) + take_bit 32 (take_bit 64 y))"
    by (simp only: take_bit_add)
  also have "\<dots> = take_bit 32 (take_bit 32 x + take_bit 32 y)"
    by simp
  also have "\<dots> = take_bit 32 (x + y)"
    by (simp only: take_bit_add)
  finally show ?thesis .
qed

lemma size_t_to_int_plus: "size_t_to_int (a + b) = size_t_to_int a + size_t_to_int b"
  unfolding size_t_to_int_def by transfer (simp add: take_bit_32_of_64_add)

lemma size_t_to_int_int_to_size_t: "size_t_to_int (int_to_size_t c) = c"
  unfolding size_t_to_int_def int_to_size_t_def
  by (rule bit_word_eqI) (auto simp: bit_simps)

lemma size_t_to_int_minus_one: "size_t_to_int (a - 1) = size_t_to_int a - 1"
proof -
  have "size_t_to_int (a + (- 1)) = size_t_to_int a + size_t_to_int (- 1)"
    by (rule size_t_to_int_plus)
  moreover have "size_t_to_int (- 1) = - 1"
    unfolding size_t_to_int_def by (rule bit_word_eqI) (auto simp: bit_simps)
  ultimately show ?thesis by simp
qed

lemma size_t_to_int_eq: "size_t_to_int n = word_of_int (uint n)"
  unfolding size_t_to_int_def by transfer simp

lemma sint_word_of_int_32:
  "- 2147483648 \<le> k \<Longrightarrow> k \<le> 2147483647 \<Longrightarrow> sint (word_of_int k :: c_int) = k"
  by (simp only: signed_of_int) (simp add: signed_take_bit_int_eq_self)

text \<open>The column arithmetic read as integers, when the sum fits an \<^verbatim>\<open>int\<close>.\<close>

lemma sint_column_add:
  fixes c :: c_int and n :: c_size_t
  assumes "1 \<le> uint n" and "sint c + uint n \<le> 2147483647"
  shows "sint (c + size_t_to_int n) = sint c + uint n"
    and "sint (c + size_t_to_int n - 1) = sint c + uint n - 1"
proof -
  have lo: "- 2147483648 \<le> sint c"
    using sint_ge [of c] by simp
  have c: "c = word_of_int (sint c)"
    by simp
  have sum: "c + size_t_to_int n = word_of_int (sint c + uint n)"
    by (subst c) (simp only: size_t_to_int_eq of_int_add)
  have "sint (word_of_int (sint c + uint n) :: c_int) = sint c + uint n"
    by (rule sint_word_of_int_32) (use lo assms in linarith)+
  then show "sint (c + size_t_to_int n) = sint c + uint n"
    by (simp only: sum)
  have pred: "c + size_t_to_int n - 1 = word_of_int (sint c + uint n - 1)"
    by (simp only: sum of_int_diff of_int_1)
  have "sint (word_of_int (sint c + uint n - 1) :: c_int) = sint c + uint n - 1"
    by (rule sint_word_of_int_32) (use lo assms in linarith)+
  then show "sint (c + size_t_to_int n - 1) = sint c + uint n - 1"
    by (simp only: pred)
qed

section \<open>Properties of the location tracker\<close>

text \<open>What \<^verbatim>\<open>YY_USER_ACTION\<close> leaves in each variable, in machine arithmetic.\<close>

lemma YY_USER_ACTION_fields:
  "yy_line_tokens (YY_USER_ACTION n s) = yy_line_tokens s + 1"
  "yylineno (YY_USER_ACTION n s) = yylineno s"
  "first_line (yylloc (YY_USER_ACTION n s)) = yylineno s"
  "last_line (yylloc (YY_USER_ACTION n s)) = yylineno s"
  "first_column (yylloc (YY_USER_ACTION n s)) = yycolumn s"
  "last_column (yylloc (YY_USER_ACTION n s)) = yycolumn s + size_t_to_int n - 1"
  "yycolumn (YY_USER_ACTION n s) = yycolumn s + size_t_to_int n"
  by (simp_all add: YY_USER_ACTION_def Let_def size_t_to_int_plus
      size_t_to_int_minus_one size_t_to_int_int_to_size_t)

lemma YY_USER_ACTION_frame:
  "yy_buffer_stack (YY_USER_ACTION n s) = yy_buffer_stack s"
  "read_cursor (YY_USER_ACTION n s) = read_cursor s"
  "errors (YY_USER_ACTION n s) = errors s"
  "py_exception (YY_USER_ACTION n s) = py_exception s"
  "yy_eof_times (YY_USER_ACTION n s) = yy_eof_times s"
  by (simp_all add: YY_USER_ACTION_def Let_def)

text \<open>
  C3, as amended. For every match of length \<open>L \<ge> 1\<close> made while the line counter is \<open>l\<close>
  and the column counter is \<open>c\<close>, the stamped location has \<open>first_line = last_line = l\<close>
  and \<open>first_column = c\<close>; and provided \<open>c + L\<close> does not exceed the largest \<^verbatim>\<open>int\<close>
  (2147483647), it has \<open>last_column = c + L - 1\<close> and after stamping the column counter
  is \<open>c + L\<close>.
\<close>

theorem YY_USER_ACTION_location:
  "first_line (yylloc (YY_USER_ACTION yyleng s)) = yylineno s \<and>
   last_line (yylloc (YY_USER_ACTION yyleng s)) = yylineno s \<and>
   first_column (yylloc (YY_USER_ACTION yyleng s)) = yycolumn s \<and>
   (1 \<le> uint yyleng \<and> sint (yycolumn s) + uint yyleng \<le> 2147483647 \<longrightarrow>
      sint (last_column (yylloc (YY_USER_ACTION yyleng s)))
        = sint (yycolumn s) + uint yyleng - 1 \<and>
      sint (yycolumn (YY_USER_ACTION yyleng s)) = sint (yycolumn s) + uint yyleng)"
  using sint_column_add [of yyleng "yycolumn s"] by (simp add: YY_USER_ACTION_fields)

theorem YY_USER_ACTION_location_witness:
  "1 \<le> uint (5 :: c_size_t) \<and>
   sint (yycolumn example_lexer) + uint (5 :: c_size_t) \<le> 2147483647 \<and>
   first_line (yylloc (YY_USER_ACTION 5 example_lexer)) = 1 \<and>
   last_line (yylloc (YY_USER_ACTION 5 example_lexer)) = 1 \<and>
   first_column (yylloc (YY_USER_ACTION 5 example_lexer)) = 1 \<and>
   sint (last_column (yylloc (YY_USER_ACTION 5 example_lexer))) = 5 \<and>
   sint (yycolumn (YY_USER_ACTION 5 example_lexer)) = 6"
  using YY_USER_ACTION_location [of 5 example_lexer]
  by (simp add: example_lexer_def)

text \<open>
  C3 as stated fails where the column counter overflows: at column 2147483647 a match of
  length 1 leaves the counter at -2147483648, not at 2147483648.
\<close>

theorem YY_USER_ACTION_location_counterexample:
  "1 \<le> uint (1 :: c_size_t) \<and>
   sint (yycolumn (example_lexer\<lparr>yycolumn := 2147483647\<rparr>)) = 2147483647 \<and>
   sint (yycolumn (YY_USER_ACTION 1 (example_lexer\<lparr>yycolumn := 2147483647\<rparr>)))
     = - 2147483648 \<and>
   sint (yycolumn (YY_USER_ACTION 1 (example_lexer\<lparr>yycolumn := 2147483647\<rparr>)))
     \<noteq> sint (yycolumn (example_lexer\<lparr>yycolumn := 2147483647\<rparr>)) + uint (1 :: c_size_t)"
  by (simp add: YY_USER_ACTION_fields example_lexer_def size_t_to_int_def)

text \<open>An \<^verbatim>\<open>int\<close> increment read as an integer, below the largest \<^verbatim>\<open>int\<close>.\<close>

lemma sint_increment:
  fixes w :: c_int
  assumes "sint w < 2147483647"
  shows "sint (w + 1) = sint w + 1"
proof -
  have lo: "- 2147483648 \<le> sint w"
    using sint_ge [of w] by simp
  have w: "w = word_of_int (sint w)"
    by simp
  have sum: "w + 1 = word_of_int (sint w + 1)"
    by (subst w) (simp only: of_int_add of_int_1)
  have "sint (word_of_int (sint w + 1) :: c_int) = sint w + 1"
    by (rule sint_word_of_int_32) (use lo assms in linarith)+
  then show ?thesis
    by (simp only: sum)
qed

text \<open>
  C4, as amended. After a match that is not a newline the tokens-since-beginning-of-line
  counter is one more than before, provided it was below the largest \<^verbatim>\<open>int\<close>
  (2147483647). After a newline match it is 0 whatever it was before, so a newline match
  never leaves it incremented; the column counter is 1; and the line counter is one more
  than before, provided it was below the largest \<^verbatim>\<open>int\<close>.
\<close>

theorem match_step_line_tokens:
  "(sint (yy_line_tokens s) < 2147483647 \<longrightarrow>
      sint (yy_line_tokens (match_step False yyleng s)) = sint (yy_line_tokens s) + 1) \<and>
   sint (yy_line_tokens (match_step True yyleng s)) = 0 \<and>
   sint (yycolumn (match_step True yyleng s)) = 1 \<and>
   (sint (yylineno s) < 2147483647 \<longrightarrow>
      sint (yylineno (match_step True yyleng s)) = sint (yylineno s) + 1)"
  using sint_increment [of "yy_line_tokens s"] sint_increment [of "yylineno s"]
  by (simp add: match_step_def newline_action_def YY_USER_ACTION_fields)

theorem match_step_line_tokens_witness:
  "sint (yy_line_tokens example_lexer) < 2147483647 \<and>
   sint (yy_line_tokens (match_step False 4 example_lexer)) = 1 \<and>
   sint (yy_line_tokens (match_step True 1 (match_step False 4 example_lexer))) = 0 \<and>
   sint (yycolumn (match_step True 1 (match_step False 4 example_lexer))) = 1 \<and>
   sint (yylineno example_lexer) < 2147483647 \<and>
   sint (yylineno (match_step True 1 example_lexer)) = 2"
proof -
  have tokens: "sint (yy_line_tokens example_lexer) = 0"
    and line: "sint (yylineno example_lexer) = 1"
    by (simp_all add: example_lexer_def)
  note first = match_step_line_tokens [of example_lexer 4]
  note later = match_step_line_tokens [of "match_step False 4 example_lexer" 1]
  note newline = match_step_line_tokens [of example_lexer 1]
  have "sint (yy_line_tokens (match_step False 4 example_lexer)) = 1"
    using first [THEN conjunct1] by (simp add: tokens)
  moreover have "sint (yylineno (match_step True 1 example_lexer)) = 2"
    using newline [THEN conjunct2, THEN conjunct2, THEN conjunct2] by (simp add: line)
  ultimately show ?thesis
    using later [THEN conjunct2, THEN conjunct1]
      later [THEN conjunct2, THEN conjunct2, THEN conjunct1]
    by (simp add: tokens line)
qed

text \<open>
  C4 as stated fails where a counter overflows: a match that is not a newline made while
  the tokens-since-beginning-of-line counter is 2147483647 leaves it at -2147483648 and not
  one higher, and a newline match made on line 2147483647 leaves the line counter at
  -2147483648.
\<close>

theorem match_step_line_tokens_counterexample:
  "sint (yy_line_tokens (example_lexer\<lparr>yy_line_tokens := 2147483647\<rparr>)) = 2147483647 \<and>
   sint (yy_line_tokens (match_step False 1 (example_lexer\<lparr>yy_line_tokens := 2147483647\<rparr>)))
     = - 2147483648 \<and>
   sint (yy_line_tokens (match_step False 1 (example_lexer\<lparr>yy_line_tokens := 2147483647\<rparr>)))
     \<noteq> sint (yy_line_tokens (example_lexer\<lparr>yy_line_tokens := 2147483647\<rparr>)) + 1 \<and>
   sint (yylineno (match_step True 1 (example_lexer\<lparr>yylineno := 2147483647\<rparr>)))
     \<noteq> sint (yylineno (example_lexer\<lparr>yylineno := 2147483647\<rparr>)) + 1"
  by (simp add: match_step_def newline_action_def YY_USER_ACTION_fields example_lexer_def)

section \<open>Properties of the numeric parser\<close>

lemma is_digit_cases:
  assumes "is_digit ch"
  shows "ch \<in> set ''0123456789''"
proof -
  define k :: nat where "k = of_char ch"
  have "48 \<le> k" "k \<le> 57"
    using assms by (simp_all add: is_digit_def k_def)
  then have "k \<in> {48, 49, 50, 51, 52, 53, 54, 55, 56, 57}"
    by simp arith
  moreover have "ch = char_of k"
    by (simp add: k_def)
  ultimately show ?thesis
    by (auto simp: char_of_eq_iff)
qed

lemma char_to_int_digit:
  assumes "is_digit ch"
  shows "char_to_int ch - char_to_int CHR ''0'' = word_of_nat (digit_value ch)"
  using is_digit_cases [OF assms]
  by (auto simp: char_to_int_def digit_value_def)

text \<open>
  The loop on a run of digits, from any accumulator: the accumulator is shifted by one
  decimal place per digit and the value of the digits is added, in \<^verbatim>\<open>int\<close> arithmetic.
\<close>

lemma strtonl_loop_digits:
  assumes "\<forall>ch \<in> set ds. is_digit ch"
  shows "strtonl_loop acc (ds @ rest) (length ds)
         = Some (acc * 10 ^ length ds + word_of_nat (decimal_value ds))"
  using assms
proof (induction ds arbitrary: acc)
  case Nil
  then show ?case by simp
next
  case (Cons ch ds)
  then have d: "is_digit ch" and ds: "\<forall>c \<in> set ds. is_digit c"
    by simp_all
  show ?case
    by (simp add: Cons.IH [OF ds] char_to_int_digit [OF d] algebra_simps)
qed

text \<open>
  Up to nine digits always denote a value that fits an \<^verbatim>\<open>int\<close>.
\<close>

lemma decimal_value_less:
  assumes "\<forall>ch \<in> set ds. is_digit ch"
  shows "decimal_value ds < 10 ^ length ds"
  using assms
proof (induction ds)
  case Nil
  then show ?case by simp
next
  case (Cons ch ds)
  then have "digit_value ch \<le> 9" and "decimal_value ds < 10 ^ length ds"
    by (auto simp: is_digit_def digit_value_def)
  then have "digit_value ch * 10 ^ length ds + decimal_value ds
             < 9 * 10 ^ length ds + 10 ^ length ds"
    by (intro add_le_less_mono mult_le_mono1)
  then show ?case by simp
qed

lemma decimal_value_nine_digits:
  assumes "length ds \<le> 9" and "list_all is_digit ds"
  shows "decimal_value ds \<le> 2147483647"
proof -
  have "decimal_value ds < 10 ^ length ds"
    using assms(2) by (simp add: decimal_value_less list_all_iff)
  also have "(10 :: nat) ^ length ds \<le> 10 ^ 9"
    using assms(1) by (intro power_increasing) simp_all
  finally show ?thesis by simp
qed

text \<open>
  C6, as amended. For every input whose first \<open>nchars\<close> characters are decimal digits
  denoting a value of at most 2147483647, \<open>strtonl\<close> returns the non-negative integer
  those digits denote; in particular \<open>strtonl("2023", 4) = 2023\<close> and
  \<open>strtonl("007", 3) = 7\<close>.
\<close>

theorem strtonl_digits:
  assumes "nchars \<le> length buf"
    and "list_all is_digit (take nchars buf)"
    and "decimal_value (take nchars buf) \<le> 2147483647"
  shows "map_option sint (strtonl buf nchars) = Some (int (decimal_value (take nchars buf))) \<and>
         map_option sint (strtonl ''2023'' 4) = Some 2023 \<and>
         map_option sint (strtonl ''007'' 3) = Some 7"
proof -
  define ds where "ds = take nchars buf"
  have digits: "\<forall>ch \<in> set ds. is_digit ch"
    using assms(2) by (simp add: ds_def list_all_iff)
  have "strtonl_loop 0 (ds @ drop nchars buf) (length ds)
        = Some (0 * 10 ^ length ds + word_of_nat (decimal_value ds))"
    using digits by (rule strtonl_loop_digits)
  then have run: "strtonl buf nchars = Some (word_of_int (int (decimal_value ds)))"
    using assms(1) by (simp add: strtonl_def ds_def min_absorb2)
  have "sint (word_of_int (int (decimal_value ds)) :: c_int) = int (decimal_value ds)"
    by (rule sint_word_of_int_32) (use assms(3) in \<open>simp_all add: ds_def\<close>)
  with run have "map_option sint (strtonl buf nchars) = Some (int (decimal_value ds))"
    by simp
  moreover have "map_option sint (strtonl ''2023'' 4) = Some 2023"
    by (simp add: strtonl_def char_to_int_def eval_nat_numeral)
  moreover have "map_option sint (strtonl ''007'' 3) = Some 7"
    by (simp add: strtonl_def char_to_int_def eval_nat_numeral)
  ultimately show ?thesis
    by (simp add: ds_def)
qed

theorem strtonl_digits_witness:
  "4 \<le> length ''2023-01-05'' \<and>
   list_all is_digit (take 4 ''2023-01-05'') \<and>
   decimal_value (take 4 ''2023-01-05'') \<le> 2147483647 \<and>
   map_option sint (strtonl ''2023-01-05'' 4) = Some 2023"
proof -
  have h1: "4 \<le> length ''2023-01-05''"
    by simp
  have h2: "list_all is_digit (take 4 ''2023-01-05'')"
    by (simp add: is_digit_def)
  have v: "decimal_value (take 4 ''2023-01-05'') = 2023"
    by (simp add: digit_value_def)
  have h3: "decimal_value (take 4 ''2023-01-05'') \<le> 2147483647"
    unfolding v by simp
  have "map_option sint (strtonl ''2023-01-05'' 4)
        = Some (int (decimal_value (take 4 ''2023-01-05'')))"
    using strtonl_digits [OF h1 h2 h3] by (rule conjunct1)
  then have "map_option sint (strtonl ''2023-01-05'' 4) = Some 2023"
    unfolding v by simp
  with h1 h2 h3 show ?thesis
    by (intro conjI)
qed

text \<open>
  C6 as stated fails on ten digits: the digits of \<open>2147483648\<close> denote a value that no
  \<^verbatim>\<open>int\<close> holds, and the multiply-and-add loop ends at -2147483648.
\<close>

theorem strtonl_digits_counterexample:
  "10 \<le> length ''2147483648'' \<and>
   list_all is_digit (take 10 ''2147483648'') \<and>
   int (decimal_value (take 10 ''2147483648'')) = 2147483648 \<and>
   map_option sint (strtonl ''2147483648'' 10) = Some (- 2147483648) \<and>
   map_option sint (strtonl ''2147483648'' 10)
     \<noteq> Some (int (decimal_value (take 10 ''2147483648'')))"
proof -
  have h1: "10 \<le> length ''2147483648''"
    by simp
  have h2: "list_all is_digit (take 10 ''2147483648'')"
    by (simp add: is_digit_def)
  have v: "int (decimal_value (take 10 ''2147483648'')) = 2147483648"
    by (simp add: digit_value_def)
  have r: "map_option sint (strtonl ''2147483648'' 10) = Some (- 2147483648)"
    by (simp add: strtonl_def char_to_int_def eval_nat_numeral)
  have "map_option sint (strtonl ''2147483648'' 10)
        \<noteq> Some (int (decimal_value (take 10 ''2147483648'')))"
    unfolding v r by simp
  with h1 h2 v r show ?thesis
    by (intro conjI)
qed

section \<open>Properties of the string accumulator\<close>

text \<open>
  Reallocation keeps the invariant, moves the cursors to the new block with the same
  offsets, leaves room for the pending write and keeps the old content.
\<close>

lemma strbuf_realloc_grows:
  assumes "strbuf_inv s"
  shows "strbuf_inv (strbuf_realloc p n s)"
    and "strbuf (strbuf_realloc p n s) = p"
    and "strbuf_ptr (strbuf_realloc p n s) = p + (strbuf_ptr s - strbuf s)"
    and "strbuf_ptr (strbuf_realloc p n s) + n \<le> strbuf_end (strbuf_realloc p n s)"
    and "strbuf_size s \<le> strbuf_size (strbuf_realloc p n s)"
    and "take (length (strbuf_block s)) (strbuf_block (strbuf_realloc p n s)) = strbuf_block s"
  using assms
  by (auto simp: strbuf_inv_def strbuf_realloc_def Let_def max_def)

lemma realloc_if_full_room:
  assumes "strbuf_inv s"
  shows "strbuf_inv (realloc_if_full p s)"
    and "strbuf_ptr (realloc_if_full p s) - strbuf (realloc_if_full p s)
         = strbuf_ptr s - strbuf s"
    and "take (length (strbuf_block s)) (strbuf_block (realloc_if_full p s)) = strbuf_block s"
    and "strbuf_ptr (realloc_if_full p s) < strbuf_end (realloc_if_full p s)"
  using assms strbuf_realloc_grows(4) [OF assms, of p 1]
  by (simp_all add: realloc_if_full_def strbuf_realloc_grows)

lemma store_and_advance_inside:
  assumes "strbuf_inv s" and "strbuf_ptr s < strbuf_end s"
  shows "store_and_advance v s
         = Some (s\<lparr>strbuf_block := (strbuf_block s)[strbuf_ptr s - strbuf s := v],
                   strbuf_ptr := strbuf_ptr s + 1\<rparr>)"
    and "strbuf_inv (s\<lparr>strbuf_block := (strbuf_block s)[strbuf_ptr s - strbuf s := v],
                   strbuf_ptr := strbuf_ptr s + 1\<rparr>)"
  using assms by (auto simp: strbuf_inv_def store_and_advance_def)

text \<open>
  C5. From a state that satisfies the accumulator's invariant, appending a byte succeeds.
  When the insertion point has reached the sentinel the buffer is reallocated first; after
  that first statement the invariant holds in the new block, the insertion point has kept
  its offset from the head, the old content is a prefix of the new block and the insertion
  point is strictly before the sentinel. The byte is then stored at the insertion point,
  the bytes before it are unchanged, and the insertion point advances by one: it ends at
  or before the sentinel and the invariant holds again.
\<close>

theorem SAFE_COPY_CHAR_safe:
  assumes "strbuf_inv s"
  shows "\<exists>s'. SAFE_COPY_CHAR p v s = Some s' \<and>
          strbuf_inv (realloc_if_full p s) \<and>
          strbuf_ptr (realloc_if_full p s) - strbuf (realloc_if_full p s)
            = strbuf_ptr s - strbuf s \<and>
          take (length (strbuf_block s)) (strbuf_block (realloc_if_full p s)) = strbuf_block s \<and>
          strbuf_ptr (realloc_if_full p s) < strbuf_end (realloc_if_full p s) \<and>
          strbuf_block s' = (strbuf_block (realloc_if_full p s))[strbuf_ptr s - strbuf s := v] \<and>
          strbuf_block s' ! (strbuf_ptr s - strbuf s) = v \<and>
          take (strbuf_ptr s - strbuf s) (strbuf_block s')
            = take (strbuf_ptr s - strbuf s) (strbuf_block s) \<and>
          strbuf_ptr s' = strbuf_ptr (realloc_if_full p s) + 1 \<and>
          strbuf s' = strbuf (realloc_if_full p s) \<and>
          strbuf_end s' = strbuf_end (realloc_if_full p s) \<and>
          strbuf_size s' = strbuf_size (realloc_if_full p s) \<and>
          strbuf_ptr s' \<le> strbuf_end s' \<and>
          strbuf_inv s'"
proof -
  define s1 where "s1 = realloc_if_full p s"
  define s' where "s' = s1\<lparr>strbuf_block := (strbuf_block s1)[strbuf_ptr s1 - strbuf s1 := v],
                           strbuf_ptr := strbuf_ptr s1 + 1\<rparr>"
  note room = realloc_if_full_room [OF assms, of p, folded s1_def]
  have run: "SAFE_COPY_CHAR p v s = Some s'"
    using store_and_advance_inside(1) [OF room(1) room(4)]
    by (simp add: SAFE_COPY_CHAR_def s1_def s'_def)
  have inv': "strbuf_inv s'"
    using store_and_advance_inside(2) [OF room(1) room(4)] by (simp add: s'_def)
  have in_block: "strbuf_ptr s - strbuf s < length (strbuf_block s)"
    using assms by (auto simp: strbuf_inv_def)
  have in_block1: "strbuf_ptr s - strbuf s < length (strbuf_block s1)"
    using room by (auto simp: strbuf_inv_def)
  have stored: "strbuf_block s' ! (strbuf_ptr s - strbuf s) = v"
    using in_block1 by (simp add: s'_def room(2))
  have "take (strbuf_ptr s - strbuf s) (strbuf_block s1)
        = take (strbuf_ptr s - strbuf s) (take (length (strbuf_block s)) (strbuf_block s1))"
    using in_block by (simp add: min_absorb1)
  then have before: "take (strbuf_ptr s - strbuf s) (strbuf_block s')
        = take (strbuf_ptr s - strbuf s) (strbuf_block s)"
    by (simp add: s'_def room)
  have le: "strbuf_ptr s' \<le> strbuf_end s'"
    using room(4) by (simp add: s'_def)
  show ?thesis
    using room inv' run stored before le
    by (intro exI [of _ s']) (simp add: s1_def [symmetric] s'_def)
qed

theorem SAFE_COPY_CHAR_safe_witness:
  "strbuf_inv \<lparr>strbuf_size = 2, strbuf = 100, strbuf_end = 102, strbuf_ptr = 102,
               strbuf_block = ''ab'' @ [CHR 0x00]\<rparr> \<and>
   SAFE_COPY_CHAR 200 CHR ''c''
     \<lparr>strbuf_size = 2, strbuf = 100, strbuf_end = 102, strbuf_ptr = 102,
      strbuf_block = ''ab'' @ [CHR 0x00]\<rparr>
   = Some \<lparr>strbuf_size = 4, strbuf = 200, strbuf_end = 204, strbuf_ptr = 203,
           strbuf_block = ''abc'' @ [CHR 0x00, CHR 0x00]\<rparr>"
proof -
  let ?s = "\<lparr>strbuf_size = 2, strbuf = 100, strbuf_end = 102, strbuf_ptr = 102,
             strbuf_block = ''ab'' @ [CHR 0x00]\<rparr>"
  have inv: "strbuf_inv ?s"
    by (simp add: strbuf_inv_def)
  have r: "realloc_if_full 200 ?s
           = \<lparr>strbuf_size = 4, strbuf = 200, strbuf_end = 204, strbuf_ptr = 202,
              strbuf_block = ''ab'' @ [CHR 0x00, CHR 0x00, CHR 0x00]\<rparr>"
    by (simp add: realloc_if_full_def strbuf_realloc_def Let_def eval_nat_numeral)
  obtain s' where run: "SAFE_COPY_CHAR 200 CHR ''c'' ?s = Some s'"
    and blk: "strbuf_block s' = (strbuf_block (realloc_if_full 200 ?s))[strbuf_ptr ?s - strbuf ?s := CHR ''c'']"
    and ptr: "strbuf_ptr s' = strbuf_ptr (realloc_if_full 200 ?s) + 1"
    and base: "strbuf s' = strbuf (realloc_if_full 200 ?s)"
    and sentinel: "strbuf_end s' = strbuf_end (realloc_if_full 200 ?s)"
    and size: "strbuf_size s' = strbuf_size (realloc_if_full 200 ?s)"
    using SAFE_COPY_CHAR_safe [OF inv, of 200 "CHR ''c''"] by blast
  have "s' = \<lparr>strbuf_size = 4, strbuf = 200, strbuf_end = 204, strbuf_ptr = 203,
           strbuf_block = ''abc'' @ [CHR 0x00, CHR 0x00]\<rparr>"
    using blk ptr base sentinel size unfolding r by (cases s') (simp add: eval_nat_numeral)
  with inv run show ?thesis
    by simp
qed

section \<open>Properties of the lexer-builder bridge\<close>

text \<open>The three outcomes of the bridge, by the pointer the builder call returns.\<close>

lemma BUILD_LEX_NULL:
  assumes "builder method_name format args s = (NULL, s0)"
  shows "BUILD_LEX builder method_name format args s
         = (Some LEX_ERROR,
            s0\<lparr>yylval_pyobj := NULL,
               errors := errors s0 @ [\<lparr>message = Failure (py_exception s0), location = yylloc s0\<rparr>],
               py_exception := None\<rparr>)"
  using assms by (simp add: BUILD_LEX_def build_lexer_error_from_exception_def)

lemma BUILD_LEX_Py_None:
  assumes "builder method_name format args s = (Py_None, s0)"
  shows "BUILD_LEX builder method_name format args s
         = (Some LEX_ERROR,
            s0\<lparr>yylval_pyobj := Py_None,
               py_none_refcnt := py_none_refcnt s0 - 1,
               errors := errors s0 @
                 [\<lparr>message = Text (c_string_literal ''Unexpected None result from lexer'') 34,
                   location = yylloc s0\<rparr>]\<rparr>)"
  using assms by (simp add: BUILD_LEX_def build_lexer_error_def Py_DECREF_None_def)

lemma BUILD_LEX_PyObj:
  assumes "builder method_name format args s = (PyObj v, s0)"
  shows "BUILD_LEX builder method_name format args s = (None, s0\<lparr>yylval_pyobj := PyObj v\<rparr>)"
  using assms by (simp add: BUILD_LEX_def)

text \<open>
  C1. When the builder operation signals failure (the call returns the null pointer and
  the host's exception state is set), the bridge hands the state to the error reporter
  for exceptions, which appends that failure to the error collection as a lexer error,
  and the scan call returns \<^verbatim>\<open>LEX_ERROR\<close> at once: whatever follows the bridge in the
  rule's action is not run.
\<close>

theorem BUILD_LEX_builder_failure:
  assumes "builder method_name format args s = (NULL, s0)"
    and "py_exception s0 = Some e"
  shows "fst (BUILD_LEX builder method_name format args s) = Some LEX_ERROR \<and>
         snd (BUILD_LEX builder method_name format args s)
           = build_lexer_error_from_exception (s0\<lparr>yylval_pyobj := NULL\<rparr>) \<and>
         errors (snd (BUILD_LEX builder method_name format args s))
           = errors s0 @ [\<lparr>message = Failure (Some e), location = yylloc s0\<rparr>] \<and>
         then_do (BUILD_LEX builder method_name format args) rest s
           = BUILD_LEX builder method_name format args s"
  using BUILD_LEX_NULL [of builder method_name format args s s0] assms
  by (simp add: then_do_def build_lexer_error_from_exception_def)

theorem BUILD_LEX_builder_failure_witness:
  "example_builder ''DATE'' ''s'' [''2023-02-30''] example_lexer
     = (NULL, example_lexer\<lparr>py_exception := Some ''ValueError''\<rparr>) \<and>
   py_exception (example_lexer\<lparr>py_exception := Some ''ValueError''\<rparr>) = Some ''ValueError'' \<and>
   fst (then_do (BUILD_LEX example_builder ''DATE'' ''s'' [''2023-02-30''])
          (\<lambda>s. (Some (TOKEN 1), s)) example_lexer) = Some LEX_ERROR \<and>
   errors (snd (then_do (BUILD_LEX example_builder ''DATE'' ''s'' [''2023-02-30''])
          (\<lambda>s. (Some (TOKEN 1), s)) example_lexer))
     = [\<lparr>message = Failure (Some ''ValueError''), location = yylloc example_lexer\<rparr>]"
proof -
  have call: "example_builder ''DATE'' ''s'' [''2023-02-30''] example_lexer
     = (NULL, example_lexer\<lparr>py_exception := Some ''ValueError''\<rparr>)"
    by (simp add: example_builder_def)
  have exc: "py_exception (example_lexer\<lparr>py_exception := Some ''ValueError''\<rparr>) = Some ''ValueError''"
    by simp
  have none: "errors example_lexer = []"
    by (simp add: example_lexer_def)
  note bridge = BUILD_LEX_builder_failure [of example_builder "''DATE''" "''s''"
      "[''2023-02-30'']" example_lexer "example_lexer\<lparr>py_exception := Some ''ValueError''\<rparr>"
      "''ValueError''" "\<lambda>s. (Some (TOKEN 1), s)", OF call exc]
  note a = bridge [THEN conjunct1]
  note c = bridge [THEN conjunct2, THEN conjunct2, THEN conjunct1]
  note d = bridge [THEN conjunct2, THEN conjunct2, THEN conjunct2]
  show ?thesis
    unfolding d using call exc a c by (simp add: none)
qed

text \<open>
  C2. When the builder operation returns \<^verbatim>\<open>None\<close>, whether or not a failure was
  signalled, the bridge has the error reporter append a lexer error with the fixed message
  \<open>Unexpected None result from lexer\<close>, and the scan call returns \<^verbatim>\<open>LEX_ERROR\<close> at
  once.
\<close>

theorem BUILD_LEX_none_result:
  assumes "builder method_name format args s = (Py_None, s0)"
  shows "fst (BUILD_LEX builder method_name format args s) = Some LEX_ERROR \<and>
         snd (BUILD_LEX builder method_name format args s)
           = build_lexer_error (c_string_literal ''Unexpected None result from lexer'') 34
               (Py_DECREF_None (s0\<lparr>yylval_pyobj := Py_None\<rparr>)) \<and>
         errors (snd (BUILD_LEX builder method_name format args s))
           = errors s0 @
               [\<lparr>message = Text (c_string_literal ''Unexpected None result from lexer'') 34,
                 location = yylloc s0\<rparr>] \<and>
         then_do (BUILD_LEX builder method_name format args) rest s
           = BUILD_LEX builder method_name format args s"
  using BUILD_LEX_Py_None [of builder method_name format args s s0] assms
  by (simp add: then_do_def build_lexer_error_def Py_DECREF_None_def)

theorem BUILD_LEX_none_result_witness:
  "example_builder ''COMMENT'' ''s'' [''; note''] example_lexer
     = (Py_None, example_lexer\<lparr>py_none_refcnt := 2\<rparr>) \<and>
   fst (then_do (BUILD_LEX example_builder ''COMMENT'' ''s'' [''; note''])
          (\<lambda>s. (Some (TOKEN 2), s)) example_lexer) = Some LEX_ERROR \<and>
   errors (snd (then_do (BUILD_LEX example_builder ''COMMENT'' ''s'' [''; note''])
          (\<lambda>s. (Some (TOKEN 2), s)) example_lexer))
     = [\<lparr>message = Text (''Unexpected None result from lexer'' @ [CHR 0x00]) 34,
         location = yylloc example_lexer\<rparr>]"
proof -
  have call: "example_builder ''COMMENT'' ''s'' [''; note''] example_lexer
     = (Py_None, example_lexer\<lparr>py_none_refcnt := 2\<rparr>)"
    by (simp add: example_builder_def example_lexer_def)
  have none: "errors example_lexer = []"
    by (simp add: example_lexer_def)
  note bridge = BUILD_LEX_none_result [of example_builder "''COMMENT''" "''s''"
      "[''; note'']" example_lexer "example_lexer\<lparr>py_none_refcnt := 2\<rparr>"
      "\<lambda>s. (Some (TOKEN 2), s)", OF call]
  note a = bridge [THEN conjunct1]
  note c = bridge [THEN conjunct2, THEN conjunct2, THEN conjunct1]
  note d = bridge [THEN conjunct2, THEN conjunct2, THEN conjunct2]
  show ?thesis
    unfolding d using call a c by (simp add: none c_string_literal_def)
qed

text \<open>
  C8. Each failure path of the bridge appends exactly one record to the error collection
  the builder call left, the success path appends none, and reporting a builder-signalled
  failure leaves the ambient exception state cleared. A later bridge call whose builder
  operation succeeds falls through with the value and adds no error of its own.
\<close>

theorem BUILD_LEX_reports_once:
  assumes "builder method_name format args s = (r, s0)"
    and "BUILD_LEX builder method_name format args s = (out, s')"
    and "builder method_name2 format2 args2 s' = (PyObj v, s2)"
  shows "(case r of
            NULL \<Rightarrow>
              out = Some LEX_ERROR \<and>
              errors s' = errors s0 @
                [\<lparr>message = Failure (py_exception s0), location = yylloc s0\<rparr>] \<and>
              py_exception s' = None
          | Py_None \<Rightarrow>
              out = Some LEX_ERROR \<and>
              errors s' = errors s0 @
                [\<lparr>message = Text (c_string_literal ''Unexpected None result from lexer'') 34,
                  location = yylloc s0\<rparr>] \<and>
              py_exception s' = py_exception s0
          | PyObj w \<Rightarrow>
              out = None \<and> errors s' = errors s0 \<and> py_exception s' = py_exception s0) \<and>
         BUILD_LEX builder method_name2 format2 args2 s' = (None, s2\<lparr>yylval_pyobj := PyObj v\<rparr>) \<and>
         errors (snd (BUILD_LEX builder method_name2 format2 args2 s')) = errors s2 \<and>
         py_exception (snd (BUILD_LEX builder method_name2 format2 args2 s')) = py_exception s2"
proof -
  have first: "case r of
            NULL \<Rightarrow>
              out = Some LEX_ERROR \<and>
              errors s' = errors s0 @
                [\<lparr>message = Failure (py_exception s0), location = yylloc s0\<rparr>] \<and>
              py_exception s' = None
          | Py_None \<Rightarrow>
              out = Some LEX_ERROR \<and>
              errors s' = errors s0 @
                [\<lparr>message = Text (c_string_literal ''Unexpected None result from lexer'') 34,
                  location = yylloc s0\<rparr>] \<and>
              py_exception s' = py_exception s0
          | PyObj w \<Rightarrow>
              out = None \<and> errors s' = errors s0 \<and> py_exception s' = py_exception s0"
  proof (cases r)
    case NULL
    then show ?thesis
      using BUILD_LEX_NULL [of builder method_name format args s s0] assms(1,2) by auto
  next
    case Py_None
    then show ?thesis
      using BUILD_LEX_Py_None [of builder method_name format args s s0] assms(1,2) by auto
  next
    case (PyObj w)
    then show ?thesis
      using BUILD_LEX_PyObj [of builder method_name format args s w s0] assms(1,2) by auto
  qed
  have second: "BUILD_LEX builder method_name2 format2 args2 s'
                = (None, s2\<lparr>yylval_pyobj := PyObj v\<rparr>)"
    using BUILD_LEX_PyObj [of builder method_name2 format2 args2 s' v s2] assms(3) by simp
  show ?thesis
    using first by (simp add: second)
qed

theorem BUILD_LEX_reports_once_witness:
  "example_builder ''DATE'' ''s'' [''2023-02-30''] example_lexer
     = (NULL, example_lexer\<lparr>py_exception := Some ''ValueError''\<rparr>) \<and>
   BUILD_LEX example_builder ''DATE'' ''s'' [''2023-02-30''] example_lexer
     = (Some LEX_ERROR,
        example_lexer\<lparr>errors := [\<lparr>message = Failure (Some ''ValueError''),
                                   location = yylloc example_lexer\<rparr>]\<rparr>) \<and>
   BUILD_LEX example_builder ''ACCOUNT'' ''s'' [''Assets:Cash'']
       (example_lexer\<lparr>errors := [\<lparr>message = Failure (Some ''ValueError''),
                                   location = yylloc example_lexer\<rparr>]\<rparr>)
     = (None,
        example_lexer\<lparr>yylval_pyobj := PyObj 7,
          errors := [\<lparr>message = Failure (Some ''ValueError''),
                     location = yylloc example_lexer\<rparr>]\<rparr>)"
proof -
  let ?s0 = "example_lexer\<lparr>py_exception := Some ''ValueError''\<rparr>"
  let ?s' = "example_lexer\<lparr>errors := [\<lparr>message = Failure (Some ''ValueError''),
                                   location = yylloc example_lexer\<rparr>]\<rparr>"
  have call: "example_builder ''DATE'' ''s'' [''2023-02-30''] example_lexer = (NULL, ?s0)"
    by (simp add: example_builder_def)
  have run: "BUILD_LEX example_builder ''DATE'' ''s'' [''2023-02-30''] example_lexer
             = (Some LEX_ERROR, ?s')"
    using BUILD_LEX_NULL [of example_builder "''DATE''" "''s''" "[''2023-02-30'']"
        example_lexer ?s0] call
    by (simp add: example_lexer_def)
  have call2: "example_builder ''ACCOUNT'' ''s'' [''Assets:Cash''] ?s' = (PyObj 7, ?s')"
    by (simp add: example_builder_def)
  show ?thesis
    using BUILD_LEX_reports_once [of example_builder "''DATE''" "''s''" "[''2023-02-30'']"
        example_lexer NULL ?s0 "Some LEX_ERROR" ?s' "''ACCOUNT''" "''s''" "[''Assets:Cash'']" 7 ?s']
      call run call2
    by simp
qed

text \<open>
  C10. In the branch for a \<^verbatim>\<open>None\<close> result the error reporter receives the string
  \<open>Unexpected None result from lexer\<close> with the length 34. The text has 33 characters, so
  the length is one more and covers the terminating nul of the string literal.
\<close>

theorem BUILD_LEX_none_message_length:
  assumes "builder method_name format args s = (Py_None, s0)"
  shows "snd (BUILD_LEX builder method_name format args s)
           = build_lexer_error (c_string_literal ''Unexpected None result from lexer'') 34
               (Py_DECREF_None (s0\<lparr>yylval_pyobj := Py_None\<rparr>)) \<and>
         message (last (errors (snd (BUILD_LEX builder method_name format args s))))
           = Text (''Unexpected None result from lexer'' @ [CHR 0x00]) 34 \<and>
         length ''Unexpected None result from lexer'' = 33 \<and>
         (34 :: nat) = length ''Unexpected None result from lexer'' + 1 \<and>
         take 34 (c_string_literal ''Unexpected None result from lexer'')
           = ''Unexpected None result from lexer'' @ [CHR 0x00]"
  using BUILD_LEX_Py_None [of builder method_name format args s s0] assms
  by (simp add: c_string_literal_def build_lexer_error_def Py_DECREF_None_def)

theorem BUILD_LEX_none_message_length_witness:
  "example_builder ''COMMENT'' ''s'' [''; note''] example_lexer
     = (Py_None, example_lexer\<lparr>py_none_refcnt := 2\<rparr>) \<and>
   message (last (errors (snd
     (BUILD_LEX example_builder ''COMMENT'' ''s'' [''; note''] example_lexer))))
     = Text (''Unexpected None result from lexer'' @ [CHR 0x00]) 34"
proof -
  have call: "example_builder ''COMMENT'' ''s'' [''; note''] example_lexer
     = (Py_None, example_lexer\<lparr>py_none_refcnt := 2\<rparr>)"
    by (simp add: example_builder_def example_lexer_def)
  note bridge = BUILD_LEX_none_message_length [of example_builder "''COMMENT''" "''s''"
      "[''; note'']" example_lexer "example_lexer\<lparr>py_none_refcnt := 2\<rparr>", OF call]
  show ?thesis
    using call bridge [THEN conjunct2, THEN conjunct1] by simp
qed

section \<open>Properties of the buffer stack\<close>

text \<open>Scanning never touches the stack; only push and pop do.\<close>

lemma consume_stack: "yy_buffer_stack (consume m s) = yy_buffer_stack s"
  by (simp add: consume_def match_step_def Let_def newline_action_def YY_USER_ACTION_frame)

lemma scan_stack: "yy_buffer_stack (scan ms s) = yy_buffer_stack s"
  by (induction ms arbitrary: s) (simp_all add: consume_stack)

lemma yypush_buffer_state_stack:
  assumes "yy_buffer_stack s = b # bs"
  shows "yy_buffer_stack (yypush_buffer_state new_buffer s) = new_buffer # save_frame s b # bs"
  using assms by (simp add: yypush_buffer_state_def restore_frame_def)

lemma yypop_buffer_state_parent:
  assumes "yy_buffer_stack s = b # parent # bs"
  shows "yypop_buffer_state s = restore_frame parent (s\<lparr>yy_buffer_stack := parent # bs\<rparr>)"
  using assms by (simp add: yypop_buffer_state_def)

text \<open>
  Popping restores what the parent's frame holds, whatever the state of the child: any
  activity that leaves the suspended frames alone ends in the same restore.
\<close>

lemma yypop_buffer_state_restores:
  assumes "yy_buffer_stack c = child # save_frame s b # bs"
  shows "read_cursor (yypop_buffer_state c) = read_cursor s"
    and "yylineno (yypop_buffer_state c) = yylineno s"
    and "yycolumn (yypop_buffer_state c) = yycolumn s"
    and "yy_buffer_stack (yypop_buffer_state c) = save_frame s b # bs"
  by (simp_all add: yypop_buffer_state_parent [OF assms] restore_frame_def save_frame_def)

text \<open>
  C7. In every state with an active buffer, pushing a new buffer, scanning any sequence of
  matches in it and popping it leaves the read cursor, the line counter and the column
  counter at the values they had at the moment of the push, whatever the new buffer
  contains and however much of it was scanned; the stack is the one before the push, with
  the three values saved in the parent's frame.
\<close>

theorem push_scan_pop_restores:
  assumes "yy_buffer_stack s = b # bs"
  shows "read_cursor (yypop_buffer_state (scan ms (yypush_buffer_state new_buffer s)))
           = read_cursor s \<and>
         yylineno (yypop_buffer_state (scan ms (yypush_buffer_state new_buffer s)))
           = yylineno s \<and>
         yycolumn (yypop_buffer_state (scan ms (yypush_buffer_state new_buffer s)))
           = yycolumn s \<and>
         yy_buffer_stack (yypop_buffer_state (scan ms (yypush_buffer_state new_buffer s)))
           = save_frame s b # bs"
proof -
  have "yy_buffer_stack (scan ms (yypush_buffer_state new_buffer s))
        = new_buffer # save_frame s b # bs"
    by (simp add: scan_stack yypush_buffer_state_stack [OF assms])
  then show ?thesis
    by (simp add: yypop_buffer_state_restores)
qed

theorem push_scan_pop_restores_witness:
  "yy_buffer_stack
     (example_lexer\<lparr>yylineno := 5, yycolumn := 10, read_cursor := 42,
        yy_buffer_stack := [example_buffer ''include'']\<rparr>)
     = example_buffer ''include'' # [] \<and>
   read_cursor (yypop_buffer_state (scan [(False, 7), (True, 1), (False, 4)]
     (yypush_buffer_state (example_buffer ''option 1234'')
        (example_lexer\<lparr>yylineno := 5, yycolumn := 10, read_cursor := 42,
           yy_buffer_stack := [example_buffer ''include'']\<rparr>)))) = 42 \<and>
   yylineno (yypop_buffer_state (scan [(False, 7), (True, 1), (False, 4)]
     (yypush_buffer_state (example_buffer ''option 1234'')
        (example_lexer\<lparr>yylineno := 5, yycolumn := 10, read_cursor := 42,
           yy_buffer_stack := [example_buffer ''include'']\<rparr>)))) = 5 \<and>
   yycolumn (yypop_buffer_state (scan [(False, 7), (True, 1), (False, 4)]
     (yypush_buffer_state (example_buffer ''option 1234'')
        (example_lexer\<lparr>yylineno := 5, yycolumn := 10, read_cursor := 42,
           yy_buffer_stack := [example_buffer ''include'']\<rparr>)))) = 10 \<and>
   yylineno (scan [(False, 7), (True, 1), (False, 4)]
     (yypush_buffer_state (example_buffer ''option 1234'')
        (example_lexer\<lparr>yylineno := 5, yycolumn := 10, read_cursor := 42,
           yy_buffer_stack := [example_buffer ''include'']\<rparr>))) = 2 \<and>
   yycolumn (scan [(False, 7), (True, 1), (False, 4)]
     (yypush_buffer_state (example_buffer ''option 1234'')
        (example_lexer\<lparr>yylineno := 5, yycolumn := 10, read_cursor := 42,
           yy_buffer_stack := [example_buffer ''include'']\<rparr>))) = 5"
proof -
  let ?s = "example_lexer\<lparr>yylineno := 5, yycolumn := 10, read_cursor := 42,
              yy_buffer_stack := [example_buffer ''include'']\<rparr>"
  have stack: "yy_buffer_stack ?s = example_buffer ''include'' # []"
    by simp
  have child: "yylineno (scan [(False, 7), (True, 1), (False, 4)]
                 (yypush_buffer_state (example_buffer ''option 1234'') ?s)) = 2"
    "yycolumn (scan [(False, 7), (True, 1), (False, 4)]
                 (yypush_buffer_state (example_buffer ''option 1234'') ?s)) = 5"
    by (simp_all add: consume_def match_step_def newline_action_def YY_USER_ACTION_fields
        yypush_buffer_state_def restore_frame_def example_buffer_def size_t_to_int_def)
  show ?thesis
    using push_scan_pop_restores [OF stack, of "[(False, 7), (True, 1), (False, 4)]"
        "example_buffer ''option 1234''"] stack child
    by simp
qed

section \<open>Properties of the scan call at the end of input\<close>

lemma next_token_root_exhausted:
  assumes "yy_buffer_stack s = [b]" and "yy_n_chars b \<le> read_cursor s"
  shows "next_token rules s = Some (YYEOF, s\<lparr>yy_buffer_stack := []\<rparr>)"
  using assms
  by (subst next_token.simps)
     (simp add: yywrap_def yypop_buffer_state_def at_end_of_input_def)

lemma next_token_empty_stack:
  assumes "yy_buffer_stack s = []"
  shows "next_token rules s = Some (YYEOF, s)"
  using assms by (subst next_token.simps) simp

lemma next_tokens_empty_stack:
  assumes "yy_buffer_stack s = []"
  shows "next_tokens rules n s = Some (replicate n YYEOF, s)"
  using assms by (induction n) (simp_all add: next_token_empty_stack)

text \<open>
  C9. With a single top-level buffer on the stack, the scan call made once the input is
  exhausted returns the end-of-input token, and each of any number of further scan calls
  returns the end-of-input token again and leaves the state as it is; no call returns
  \<^verbatim>\<open>LEX_ERROR\<close> and the error collection is unchanged.
\<close>

theorem next_token_end_of_input:
  assumes "yy_buffer_stack s = [b]" and "yy_n_chars b \<le> read_cursor s"
  shows "next_token rules s = Some (YYEOF, s\<lparr>yy_buffer_stack := []\<rparr>) \<and>
         next_tokens rules n (s\<lparr>yy_buffer_stack := []\<rparr>)
           = Some (replicate n YYEOF, s\<lparr>yy_buffer_stack := []\<rparr>) \<and>
         errors (s\<lparr>yy_buffer_stack := []\<rparr>) = errors s"
  using next_token_root_exhausted [OF assms] next_tokens_empty_stack [of "s\<lparr>yy_buffer_stack := []\<rparr>"]
  by simp


theorem next_token_end_of_input_witness:
  "yy_buffer_stack (example_lexer\<lparr>read_cursor := 4, yy_buffer_stack := [example_buffer ''2023'']\<rparr>)
     = [example_buffer ''2023''] \<and>
   yy_n_chars (example_buffer ''2023'')
     \<le> read_cursor (example_lexer\<lparr>read_cursor := 4, yy_buffer_stack := [example_buffer ''2023'']\<rparr>) \<and>
   next_token (\<lambda>s. (1, \<lambda>s. (Some (TOKEN 0), s)))
       (example_lexer\<lparr>read_cursor := 4, yy_buffer_stack := [example_buffer ''2023'']\<rparr>)
     = Some (YYEOF, example_lexer\<lparr>read_cursor := 4\<rparr>) \<and>
   next_tokens (\<lambda>s. (1, \<lambda>s. (Some (TOKEN 0), s))) 3 (example_lexer\<lparr>read_cursor := 4\<rparr>)
     = Some ([YYEOF, YYEOF, YYEOF], example_lexer\<lparr>read_cursor := 4\<rparr>)"
proof -
  let ?s = "example_lexer\<lparr>read_cursor := 4, yy_buffer_stack := [example_buffer ''2023'']\<rparr>"
  have stack: "yy_buffer_stack ?s = [example_buffer ''2023'']"
    by simp
  have exhausted: "yy_n_chars (example_buffer ''2023'') \<le> read_cursor ?s"
    by (simp add: example_buffer_def)
  have empty: "?s\<lparr>yy_buffer_stack := []\<rparr> = example_lexer\<lparr>read_cursor := 4\<rparr>"
    by (simp add: example_lexer_def)
  show ?thesis
    using next_token_end_of_input [OF stack exhausted, of "\<lambda>s. (1, \<lambda>s. (Some (TOKEN 0), s))" 3]
      stack exhausted
    unfolding empty by (simp add: eval_nat_numeral)
qed


text \<open>
  When a nested buffer is exhausted the scan call pops it, counts the end of file and goes
  on in the parent.
\<close>

lemma next_token_nested_exhausted:
  assumes "yy_buffer_stack s = b # parent # bs" and "yy_n_chars b \<le> read_cursor s"
  shows "next_token rules s
         = next_token rules ((yypop_buffer_state s)\<lparr>yy_eof_times := yy_eof_times s + 1\<rparr>)"
  using assms
  by (subst next_token.simps)
     (simp add: yywrap_def yypop_buffer_state_def at_end_of_input_def restore_frame_def)

text \<open>
  While the active buffer has input, the token of a scan call is the one the matched
  rule's action returns.
\<close>

lemma next_token_match:
  assumes "yy_buffer_stack s \<noteq> []"
    and "read_cursor s < yy_n_chars (hd (yy_buffer_stack s))"
  shows "next_token rules s =
         (case snd (rules s) (YY_USER_ACTION (fst (rules s))
                  (s\<lparr>read_cursor := read_cursor s + unat (fst (rules s))\<rparr>)) of
            (Some t, s') \<Rightarrow> Some (t, s')
          | (None, s') \<Rightarrow> next_token rules s')"
  using assms
  by (subst next_token.simps) (auto split: list.splits prod.splits option.splits)

lemma next_token_last_buffer_done:
  assumes "tl (yy_buffer_stack s) = []" and "yy_buffer_stack s \<noteq> []"
    and "yy_n_chars (hd (yy_buffer_stack s)) \<le> read_cursor s"
  shows "next_token rules s = Some (YYEOF, s\<lparr>yy_buffer_stack := []\<rparr>)"
  using assms by (cases "yy_buffer_stack s") (simp_all add: next_token_root_exhausted)



lemma next_token_returning_rule:
  assumes "yy_buffer_stack s \<noteq> []"
    and "read_cursor s < yy_n_chars (hd (yy_buffer_stack s))"
  shows "next_token (\<lambda>s. (n, \<lambda>s. (Some t, s))) s
         = Some (t, YY_USER_ACTION n (s\<lparr>read_cursor := read_cursor s + unat n\<rparr>))"
  using assms by (simp add: next_token_match)



text \<open>
  A scan of the four characters \<open>2023\<close> by a rule that matches two characters and
  returns a token: two tokens, then the end-of-input token on every further call.
\<close>

lemma next_tokens_example:
  "map_option fst
     (next_tokens (\<lambda>s. (2, \<lambda>s. (Some (TOKEN 0), s))) (Suc (Suc (Suc (Suc 0))))
        (example_lexer\<lparr>yy_buffer_stack := [example_buffer ''2023'']\<rparr>))
   = Some [TOKEN 0, TOKEN 0, YYEOF, YYEOF]"
  by (simp add: next_token_returning_rule next_token_last_buffer_done
      next_token_empty_stack example_lexer_def example_buffer_def
      YY_USER_ACTION_frame)

end
